theory Spec2Isabelle
  imports Main "HOL-Library.Word"
begin

section \<open>JSON values and JavaScript strings\<close>

text \<open>
  A JavaScript string is a sequence of UTF-16 code units and \<open>s.length\<close> counts
  code units, so a string value is a list of 16-bit words. Method names, object keys
  and messages, whose length is never taken, stay HOL strings; \<open>ascii\<close> embeds them.
\<close>

type_synonym js_string = "16 word list"

definition ascii :: "string \<Rightarrow> js_string" where
  "ascii s = map (\<lambda>c. of_nat (of_char c)) s"

text \<open>
  What \<open>JSON.parse\<close> can return. An object keeps its members in source order; on a
  repeated key the last member is the one a property read sees.
\<close>

datatype json =
    JNull
  | JBool bool
  | JNum int
  | JStr js_string
  | JArr "json list"
  | JObj "(string \<times> json) list"

text \<open>
  Property read \<open>v[k]\<close> as far as the engine uses it: \<open>None\<close> is JavaScript's
  \<open>undefined\<close> (key absent), \<open>Some JNull\<close> an explicit \<open>null\<close>.
\<close>

fun member :: "json \<Rightarrow> string \<Rightarrow> json option" where
  "member (JObj kvs) k = map_of (rev kvs) k"
| "member _ k = None"

section \<open>Errors of the request layer\<close>

datatype protocol_violation =
    JsonRpcError json
  | ResultNotFound
  | ResponseNotArray
  | BatchLengthMismatch nat nat

datatype request_error =
    TransportError nat
  | ProtocolError protocol_violation

definition digit_char :: "nat \<Rightarrow> char" where
  "digit_char n = ''0123456789'' ! n"

fun show_nat :: "nat \<Rightarrow> string" where
  "show_nat n = (if n < 10 then [digit_char n] else show_nat (n div 10) @ [digit_char (n mod 10)])"

declare show_nat.simps [simp del]

text \<open>The messages the test suite of the engine expects, word for word.\<close>

fun error_message :: "request_error \<Rightarrow> string" where
  "error_message (TransportError status) = ''Wrong response<'' @ show_nat status @ ''>''"
| "error_message (ProtocolError (JsonRpcError e)) = ''Error JSON PRC response''"
| "error_message (ProtocolError ResultNotFound) = ''Invalid JSON RPC response, result not found''"
| "error_message (ProtocolError ResponseNotArray) =
     ''Invalid JSON Batch RPC response, response should be an array''"
| "error_message (ProtocolError (BatchLengthMismatch n m)) =
     ''Invalid JSON Batch RPC response, batch with '' @ show_nat n @ '' calls, but got ''
       @ show_nat m @ '' responses''"

section \<open>The JSON-RPC engine\<close>

text \<open>
  The transport below the engine: it is handed the JSON body of one POST and answers
  with the parsed body of a 2xx response, or fails with the status.
\<close>

type_synonym transport = "json \<Rightarrow> request_error + json"

text \<open>
  Modelled from the spec: the request envelope of \<open>basic/request/json-rpc\<close>, which is
  not among the sources (only its tests are). The RPC request is
  \<open>{jsonrpc: "2.0", id, method, params}\<close>, in the member order the tests serialise.
\<close>

definition envelope :: "nat \<Rightarrow> string \<Rightarrow> json \<Rightarrow> json" where
  "envelope i m p =
     JObj [(''jsonrpc'', JStr (ascii ''2.0'')), (''id'', JNum (int i)),
           (''method'', JStr (ascii m)), (''params'', p)]"

text \<open>
  Modelled from the spec: the extraction rule of the absent JSON-RPC engine. If
  \<open>error\<close> is present the call fails with the JSON-RPC error carrying the remote
  error object; else if the \<open>result\<close> key is absent it fails with "result not found";
  else \<open>result\<close> is returned verbatim.
\<close>

definition parseRPCResponse :: "json \<Rightarrow> request_error + json" where
  "parseRPCResponse response =
     (case member response ''error'' of
        Some e \<Rightarrow> Inl (ProtocolError (JsonRpcError e))
      | None \<Rightarrow>
          (case member response ''result'' of
             None \<Rightarrow> Inl (ProtocolError ResultNotFound)
           | Some r \<Rightarrow> Inr r))"

text \<open>
  Modelled from the spec: \<open>call(method, params)\<close> of the absent JSON-RPC engine builds
  one envelope with id 0, POSTs it, and extracts the result from the single response
  object. A transport failure rejects the call untouched.
\<close>

definition call_body :: "string \<Rightarrow> json \<Rightarrow> json" where
  "call_body m p = envelope 0 m p"

definition call :: "transport \<Rightarrow> string \<Rightarrow> json \<Rightarrow> request_error + json" where
  "call post m p =
     (case post (call_body m p) of
        Inl e \<Rightarrow> Inl e
      | Inr response \<Rightarrow> parseRPCResponse response)"

text \<open>
  Modelled from the spec: the batch body of the absent JSON-RPC engine is the JSON array
  of the envelopes, the id of each being its zero-based position.
\<close>

definition batch_body :: "(string \<times> json) list \<Rightarrow> json" where
  "batch_body calls =
     JArr (map (\<lambda>(i, (m, p)). envelope i m p) (zip [0..<length calls] calls))"

text \<open>
  Modelled from the spec: every element of a batch response goes through the single-call
  rule, in order; the first element that fails rejects the batch.
\<close>

fun parse_all :: "json list \<Rightarrow> request_error + json list" where
  "parse_all [] = Inr []"
| "parse_all (r # rs) =
     (case parseRPCResponse r of
        Inl e \<Rightarrow> Inl e
      | Inr v \<Rightarrow> (case parse_all rs of Inl e \<Rightarrow> Inl e | Inr vs \<Rightarrow> Inr (v # vs)))"

text \<open>
  Modelled from the spec: \<open>batchCall(calls)\<close> of the absent JSON-RPC engine requires
  the parsed response to be an array of exactly the length of the request, then extracts
  each element by position.
\<close>

definition batchCall :: "transport \<Rightarrow> (string \<times> json) list \<Rightarrow> request_error + json list" where
  "batchCall post calls =
     (case post (batch_body calls) of
        Inl e \<Rightarrow> Inl e
      | Inr (JArr responses) \<Rightarrow>
          if length calls \<noteq> length responses
          then Inl (ProtocolError (BatchLengthMismatch (length calls) (length responses)))
          else parse_all responses
      | Inr _ \<Rightarrow> Inl (ProtocolError ResponseNotArray))"

section \<open>The Starcoin client\<close>

text \<open>
  \<open>StcClient.broadcastTransaction\<close> (provider/chains/stc/starcoin.ts): awaits
  \<open>rpc.call('txpool.submit_hex_transaction', [rawTx])\<close> and returns
  \<open>typeof txid === 'string' && txid.length === 66\<close>. The client's \<open>rpc\<close> is the
  parameter; a rejection of the call is a rejection of the broadcast.
\<close>

type_synonym rpc = "string \<Rightarrow> json \<Rightarrow> request_error + json"

definition typeof_string :: "json \<Rightarrow> bool" where
  "typeof_string v = (case v of JStr s \<Rightarrow> True | _ \<Rightarrow> False)"

definition js_length :: "json \<Rightarrow> nat option" where
  "js_length v = (case v of JStr s \<Rightarrow> Some (length s) | JArr xs \<Rightarrow> Some (length xs) | _ \<Rightarrow> None)"

definition broadcastTransaction :: "rpc \<Rightarrow> js_string \<Rightarrow> request_error + bool" where
  "broadcastTransaction rpc_call rawTx =
     (case rpc_call ''txpool.submit_hex_transaction'' (JArr [JStr rawTx]) of
        Inl e \<Rightarrow> Inl e
      | Inr txid \<Rightarrow> Inr (typeof_string txid \<and> js_length txid = Some 66))"

section \<open>Promises, as far as the provider layer observes them\<close>

text \<open>
  What a rejected promise or a thrown exception carries. \<open>CheckFailed\<close> is the
  error of a failed \<open>check\<close>, \<open>NotDefined\<close> that of a failed \<open>checkIsDefined\<close>,
  \<open>Errors\<close> the failures of all inputs of an any-promise.
\<close>

datatype failure =
    Error string
  | CheckFailed string
  | NotDefined
  | NotImplementedError
  | RequestFailed request_error
  | Errors "failure list"

text \<open>One entry of \<open>Promise.allSettled\<close>: \<open>{status: 'fulfilled', value}\<close> or
  \<open>{status: 'rejected', reason}\<close>.\<close>

datatype 'a outcome = Fulfilled 'a | Rejected failure

text \<open>
  A promise over time: \<open>Some (d, r)\<close> settles as \<open>r\<close> after \<open>d\<close> milliseconds,
  \<open>None\<close> never settles.
\<close>

type_synonym 'a promise = "(nat \<times> 'a outcome) option"

fun earliest :: "nat \<times> 'a \<Rightarrow> (nat \<times> 'a) list \<Rightarrow> nat \<times> 'a" where
  "earliest x [] = x"
| "earliest x (y # ys) = earliest (if fst y < fst x then y else x) ys"

text \<open>
  \<open>Promise.race\<close>: settles as the input that settles first; inputs that settle in the
  same millisecond are taken in array order.
\<close>

definition promise_race :: "'a promise list \<Rightarrow> 'a promise" where
  "promise_race ps =
     (case List.map_filter (\<lambda>p. p) ps of [] \<Rightarrow> None | x # xs \<Rightarrow> Some (earliest x xs))"

fun fulfilments :: "'a promise list \<Rightarrow> (nat \<times> 'a) list" where
  "fulfilments [] = []"
| "fulfilments (Some (d, Fulfilled v) # ps) = (d, v) # fulfilments ps"
| "fulfilments (_ # ps) = fulfilments ps"

fun rejections :: "'a promise list \<Rightarrow> (nat \<times> failure) list" where
  "rejections [] = []"
| "rejections (Some (d, Rejected e) # ps) = (d, e) # rejections ps"
| "rejections (_ # ps) = rejections ps"

text \<open>
  Modelled from the spec: \<open>createAnyPromise\<close> of \<open>basic/promise-plus\<close>, which is not
  among the sources. It resolves with the first input that fulfils, not merely the first
  to respond; when every input has rejected no candidate wins and it rejects (once the
  last rejection is in); while an input that has not fulfilled is still pending it stays
  pending.
\<close>

definition createAnyPromise :: "'a promise list \<Rightarrow> 'a promise" where
  "createAnyPromise ps =
     (case fulfilments ps of
        x # xs \<Rightarrow> (case earliest x xs of (d, v) \<Rightarrow> Some (d, Fulfilled v))
      | [] \<Rightarrow>
          if None \<in> set ps then None
          else Some (fold max (map fst (rejections ps)) 0, Rejected (Errors (map snd (rejections ps)))))"

text \<open>
  Modelled from the spec: \<open>createDelayPromise(timeout, value)\<close> of the absent
  \<open>basic/promise-plus\<close> is a fixed delay that resolves to the given value.
\<close>

definition createDelayPromise :: "nat \<Rightarrow> 'a \<Rightarrow> 'a promise" where
  "createDelayPromise timeout v = Some (timeout, Fulfilled v)"

text \<open>The value of a promise seen at a wider type (\<open>T\<close> as \<open>T | undefined\<close>).\<close>

definition widen :: "'a promise \<Rightarrow> 'a option promise" where
  "widen p =
     (case p of
        None \<Rightarrow> None
      | Some (d, Fulfilled v) \<Rightarrow> Some (d, Fulfilled (Some v))
      | Some (d, Rejected e) \<Rightarrow> Some (d, Rejected e))"

section \<open>The capability interfaces (provider/abc.ts)\<close>

text \<open>
  Modelled from the spec: \<open>check(statement, message)\<close> of \<open>basic/precondtion\<close>, which
  is not among the sources, is an assertion whose violation is fatal.
\<close>

definition check :: "bool \<Rightarrow> string \<Rightarrow> failure + unit" where
  "check statement msg = (if statement then Inr () else Inl (CheckFailed msg))"

text \<open>
  A call of a function that is to return a promise: it throws before returning, or it
  returns the promise.
\<close>

datatype 'a invocation = Throws failure | Returns "'a promise"

text \<open>
  \<open>inputs.map(handler)\<close>: the handler is called on the items in order. A call that
  throws ends the map with that exception, so the items after it are never handed to the
  handler. The first component lists the items the handler was called on.
\<close>

fun map_handler ::
  "('a \<Rightarrow> 'b invocation) \<Rightarrow> 'a list \<Rightarrow> 'a list \<times> (failure + 'b promise list)" where
  "map_handler handler [] = ([], Inr [])"
| "map_handler handler (x # xs) =
     (case handler x of
        Throws e \<Rightarrow> ([x], Inl e)
      | Returns p \<Rightarrow>
          (case map_handler handler xs of
             (called, Inl e) \<Rightarrow> (x # called, Inl e)
           | (called, Inr ps) \<Rightarrow> (x # called, Inr (p # ps))))"

fun settle_all :: "'a promise list \<Rightarrow> (nat \<times> 'a outcome) list option" where
  "settle_all [] = Some []"
| "settle_all (None # ps) = None"
| "settle_all (Some x # ps) = (case settle_all ps of None \<Rightarrow> None | Some xs \<Rightarrow> Some (x # xs))"

text \<open>
  \<open>Promise.allSettled\<close>: fulfils, once every input has settled, with the outcomes in
  the order of the inputs; it never rejects, and it stays pending while an input does.
\<close>

definition allSettled :: "'a promise list \<Rightarrow> 'a outcome list promise" where
  "allSettled ps =
     (case settle_all ps of
        None \<Rightarrow> None
      | Some xs \<Rightarrow> Some (fold max (map fst xs) 0, Fulfilled (map snd xs)))"

text \<open>
  The body of \<open>batchCall2SingleCall\<close> after the await: the length check, then the map
  that returns the value of a fulfilled entry and, falling off the end of the callback
  after \<open>console.debug\<close>, \<open>undefined\<close> for a rejected one.
\<close>

definition collect :: "'a list \<Rightarrow> 'r option outcome list \<Rightarrow> failure + 'r option list" where
  "collect inputs outputs =
     (case check (length inputs = length outputs)
             (''Batch call '' @ show_nat (length inputs) @ '' requests, but received ''
                @ show_nat (length outputs) @ '' results'') of
        Inl e \<Rightarrow> Inl e
      | Inr _ \<Rightarrow>
          Inr (map (\<lambda>result. case result of Fulfilled v \<Rightarrow> v | Rejected reason \<Rightarrow> None) outputs))"

text \<open>
  \<open>SimpleClient.batchCall2SingleCall\<close>, an async function: its result is a promise,
  paired here with the items the handler was called on. The handler has type
  \<open>(input: T) => Promise<R | undefined>\<close>. Line 61 evaluates \<open>inputs.map(handler)\<close>
  first, so an exception thrown by a call of the handler rejects the adapter at once;
  otherwise the adapter awaits \<open>Promise.allSettled\<close> of the promises, without any
  timeout, and goes on with \<open>collect\<close>, whose failed check rejects it.
\<close>

definition batchCall2SingleCall ::
  "'a list \<Rightarrow> ('a \<Rightarrow> 'r option invocation) \<Rightarrow> 'a list \<times> 'r option list promise" where
  "batchCall2SingleCall inputs handler =
     (case map_handler handler inputs of
        (called, Inl e) \<Rightarrow> (called, Some (0, Rejected e))
      | (called, Inr ps) \<Rightarrow>
          (called,
           case allSettled ps of
             None \<Rightarrow> None
           | Some (d, Rejected e) \<Rightarrow> Some (d, Rejected e)
           | Some (d, Fulfilled outputs) \<Rightarrow>
               (case collect inputs outputs of
                  Inl e \<Rightarrow> Some (d, Rejected e)
                | Inr outs \<Rightarrow> Some (d, Fulfilled outs))))"

text \<open>
  \<open>Array.prototype.reduce\<close> with the index passed to the callback, from index \<open>i\<close> on.
\<close>

fun reduce_from :: "('b \<Rightarrow> 'x \<Rightarrow> nat \<Rightarrow> 'b) \<Rightarrow> 'b \<Rightarrow> nat \<Rightarrow> 'x list \<Rightarrow> 'b" where
  "reduce_from f acc i [] = acc"
| "reduce_from f acc i (x # xs) = reduce_from f (f acc x i) (Suc i) xs"

text \<open>\<open>addresses[index]\<close> used as a property key: out of range it is \<open>undefined\<close>, which
  as a key reads \<open>"undefined"\<close>.\<close>

definition key_at :: "string list \<Rightarrow> nat \<Rightarrow> string" where
  "key_at addresses index = (if index < length addresses then addresses ! index else ''undefined'')"

text \<open>
  The object that the reduce of \<open>getUTXOs\<close> builds from \<open>{}\<close>: its own properties,
  and its prototype when that is no longer \<open>Object.prototype\<close>. Every value stored is an
  array. The assignment \<open>acc[k] = v\<close> creates or overwrites the own property \<open>k\<close>,
  except for the key \<open>__proto__\<close>: that one is an accessor inherited from
  \<open>Object.prototype\<close>, whose setter makes the array \<open>v\<close> the prototype of \<open>acc\<close>
  and creates no own property.
\<close>

record 'v js_object =
  own :: "string \<rightharpoonup> 'v"
  proto :: "'v option"

definition empty_object :: "'v js_object" where
  "empty_object = \<lparr>own = Map.empty, proto = None\<rparr>"

definition assign :: "'v js_object \<Rightarrow> string \<Rightarrow> 'v \<Rightarrow> 'v js_object" where
  "assign acc k v =
     (if k = ''__proto__'' then acc\<lparr>proto := Some v\<rparr> else acc\<lparr>own := (own acc)(k \<mapsto> v)\<rparr>)"

text \<open>
  \<open>SimpleClient.getUTXOs\<close>, an async function: the fan-out over
  \<open>(i) => this.getUTXO(i)\<close>, with \<open>getUTXO\<close> of type
  \<open>(address: string) => Promise<UTXO[]>\<close>, and, once that has fulfilled, the reduce
  from \<open>{}\<close> that sets \<open>acc[addresses[index]] = utxos || []\<close>; an array is never
  falsy, so \<open>[]\<close> stands in for \<open>undefined\<close> only. A rejection of the fan-out rejects
  \<open>getUTXOs\<close>.
\<close>

definition getUTXOs ::
  "(string \<Rightarrow> 'u list invocation) \<Rightarrow> string list \<Rightarrow> string list \<times> 'u list js_object promise" where
  "getUTXOs getUTXO addresses =
     (case batchCall2SingleCall addresses
             (\<lambda>i. case getUTXO i of Throws e \<Rightarrow> Throws e | Returns p \<Rightarrow> Returns (widen p)) of
        (called, None) \<Rightarrow> (called, None)
      | (called, Some (d, Rejected e)) \<Rightarrow> (called, Some (d, Rejected e))
      | (called, Some (d, Fulfilled result)) \<Rightarrow>
          (called,
           Some (d, Fulfilled
                  (reduce_from
                     (\<lambda>acc utxos index.
                        assign acc (key_at addresses index)
                          (case utxos of Some us \<Rightarrow> us | None \<Rightarrow> []))
                     empty_object 0 result))))"

section \<open>The provider controller\<close>

text \<open>
  \<open>ChainInfo\<close> and its client configurations, as \<open>getClient\<close> reads them
  (\<open>impl\<close>, \<open>clients\<close>, and of each configuration \<open>name\<close> and \<open>args\<close>).
\<close>

record client_config =
  name :: string
  args :: "json list"

record chain_info =
  code :: string
  impl :: string
  clients :: "client_config list"

text \<open>
  A client instance: the class it was constructed from, the constructor arguments, and
  the chain information bound by \<open>setChainInfo\<close>.
\<close>

record client =
  clazz :: string
  ctor_args :: "json list"
  chainInfo :: "chain_info option"

record client_info =
  bestBlockNumber :: int
  isReady :: bool

text \<open>
  What lies outside the controller: the caller's \<open>chainSelector\<close>; for each chain
  module of \<open>IMPLS\<close>, which names it exports (\<open>module[config.name]\<close> is defined or
  not); and what \<open>getInfo()\<close> on a client does when invoked at a given time.
\<close>

record env =
  chainSelector :: "string \<Rightarrow> chain_info"
  exports :: "string \<Rightarrow> string \<Rightarrow> bool"
  getInfo :: "client \<Rightarrow> int \<Rightarrow> client_info promise"

text \<open>
  The two private caches of \<open>ProviderController\<close>, together with the clock that
  \<open>Date.now()\<close> reads (milliseconds) and the trace of the clients on which
  \<open>getInfo()\<close> has been invoked.
\<close>

record state =
  clientsCache :: "string \<rightharpoonup> client list"
  lastClientCache :: "string \<rightharpoonup> client \<times> int"
  now :: int
  getInfoCalls :: "client list"

definition IMPLS :: "string list" where
  "IMPLS = [''algo'', ''cfx'', ''cosmos'', ''eth'', ''sol'', ''stc'', ''near'']"

text \<open>
  Modelled from the spec: \<open>checkIsDefined\<close> of the absent \<open>basic/precondtion\<close> returns
  its argument when it is defined and fails otherwise. \<open>requireChainImpl\<close> applies it
  to \<open>IMPLS[impl]\<close>; the module is seen through the names it exports.
\<close>

definition requireChainImpl :: "env \<Rightarrow> string \<Rightarrow> failure + (string \<Rightarrow> bool)" where
  "requireChainImpl e i = (if i \<in> set IMPLS then Inr (exports e i) else Inl NotDefined)"

text \<open>
  Lines 46 to 54 of \<open>getClient\<close>: the destructuring
  \<open>[lastClient, expiredAt] = this.lastClientCache[chainCode] || []\<close> and the test
  \<open>typeof lastClient !== undefined && expiredAt <= Date.now() && filter(lastClient)\<close>.
  \<open>typeof\<close> yields a string, which is never identical to \<open>undefined\<close>, so the first
  conjunct is true; without an entry \<open>expiredAt\<close> is \<open>undefined\<close> and
  \<open>undefined <= Date.now()\<close> is false. The result is the client returned at line 53.
\<close>

definition cached :: "state \<Rightarrow> string \<Rightarrow> (client \<Rightarrow> bool) \<Rightarrow> client option" where
  "cached s chainCode flt =
     (case lastClientCache s chainCode of
        None \<Rightarrow> None
      | Some (lastClient, expiredAt) \<Rightarrow>
          if True \<and> expiredAt \<le> now s \<and> flt lastClient then Some lastClient else None)"

text \<open>
  Lines 59 to 70: the pool of a chain, one client per configuration whose class the
  module exports, each bound to the chain information, stored in \<open>clientsCache\<close>.
\<close>

definition buildClients :: "env \<Rightarrow> state \<Rightarrow> string \<Rightarrow> failure + client list \<times> state" where
  "buildClients e s chainCode =
     (let info = chainSelector e chainCode in
      case requireChainImpl e (impl info) of
        Inl err \<Rightarrow> Inl err
      | Inr module \<Rightarrow>
          (let cs = map (\<lambda>config. \<lparr>clazz = name config, ctor_args = args config,
                                   chainInfo = Some info\<rparr>)
                        (filter (\<lambda>config. module (name config)) (clients info))
           in Inr (cs, s\<lparr>clientsCache := (clientsCache s)(chainCode \<mapsto> cs)\<rparr>)))"

text \<open>Lines 56 to 71: the pool is built when it is missing or empty.\<close>

definition pool :: "env \<Rightarrow> state \<Rightarrow> string \<Rightarrow> failure + client list \<times> state" where
  "pool e s chainCode =
     (case clientsCache s chainCode of
        None \<Rightarrow> buildClients e s chainCode
      | Some cs \<Rightarrow> if cs = [] then buildClients e s chainCode else Inr (cs, s))"

text \<open>
  Lines 78 to 88, the task of one candidate: it awaits \<open>candidate.getInfo()\<close>, throws
  when \<open>info.isReady\<close> is false and returns the candidate otherwise.
\<close>

definition candidate_task :: "env \<Rightarrow> int \<Rightarrow> client \<Rightarrow> client promise" where
  "candidate_task e t candidate =
     (case getInfo e candidate t of
        None \<Rightarrow> None
      | Some (d, Rejected err) \<Rightarrow> Some (d, Rejected err)
      | Some (d, Fulfilled info) \<Rightarrow>
          if \<not> isReady info then Some (d, Rejected (Error (clazz candidate @ ''<[object Object]> is not ready.'')))
          else Some (d, Fulfilled candidate))"

text \<open>
  Lines 76 to 91: the any-promise over the candidates that pass the filter, raced
  against the delay of 10000 ms that resolves to \<open>undefined\<close>.
\<close>

definition readiness_race :: "env \<Rightarrow> int \<Rightarrow> client list \<Rightarrow> client option promise" where
  "readiness_race e t candidates =
     promise_race [widen (createAnyPromise (map (candidate_task e t) candidates)),
                   createDelayPromise 10000 None]"

text \<open>Line 45: \<open>filter = filter || (() => true)\<close>.\<close>

definition default_filter :: "(client \<Rightarrow> bool) option \<Rightarrow> client \<Rightarrow> bool" where
  "default_filter filter_arg = (case filter_arg of None \<Rightarrow> (\<lambda>c. True) | Some f \<Rightarrow> f)"

text \<open>
  \<open>ProviderController.getClient\<close>. The result is \<open>None\<close> should the awaited race
  never settle. The missing filter defaults to \<open>() => true\<close>. A rejection of the race
  is caught (and logged), which leaves \<open>client\<close> undefined as the delay does; an
  undefined \<open>client\<close> throws, any other is stored with \<open>Date.now() + 300000\<close>, read
  after the await, and returned.
\<close>

definition getClient ::
  "env \<Rightarrow> state \<Rightarrow> string \<Rightarrow> (client \<Rightarrow> bool) option \<Rightarrow> ((failure + client) \<times> state) option" where
  "getClient e s chainCode filter_arg =
     (let flt = default_filter filter_arg in
      case cached s chainCode flt of
        Some lastClient \<Rightarrow> Some (Inr lastClient, s)
      | None \<Rightarrow>
          (case pool e s chainCode of
             Inl err \<Rightarrow> Some (Inl err, s)
           | Inr (cs, s1) \<Rightarrow>
               (let candidates = filter flt cs;
                    s2 = s1\<lparr>getInfoCalls := getInfoCalls s1 @ candidates\<rparr>
                in case readiness_race e (now s) candidates of
                     None \<Rightarrow> None
                   | Some (d, settled) \<Rightarrow>
                       (let s3 = s2\<lparr>now := now s2 + int d\<rparr>;
                            client = (case settled of Fulfilled c \<Rightarrow> c | Rejected err \<Rightarrow> None)
                        in case client of
                             None \<Rightarrow> Some (Inl (Error ''No available client''), s3)
                           | Some c \<Rightarrow>
                               Some (Inr c,
                                     s3\<lparr>lastClientCache :=
                                          (lastClientCache s3)(chainCode \<mapsto> (c, now s3 + 300000))\<rparr>)))))"

section \<open>Example configurations\<close>

text \<open>
  The batch of the engine's tests: the call \<open>['ping1', {v1: 1001}]\<close> followed by
  the call \<open>['ping2', {v2: '777'}]\<close>.
\<close>

definition two_pings :: "(string \<times> json) list" where
  "two_pings =
     [(''ping1'', JObj [(''v1'', JNum 1001)]), (''ping2'', JObj [(''v2'', JStr (ascii ''777''))])]"

text \<open>
  A Starcoin chain with two configured clients, \<open>A\<close> and \<open>B\<close>, and the instances
  the controller constructs from the two configurations.
\<close>

definition stc_chain :: chain_info where
  "stc_chain =
     \<lparr>code = ''stc'', impl = ''stc'',
      clients = [\<lparr>name = ''StcClient'', args = [JStr (ascii ''https://a'')]\<rparr>,
                 \<lparr>name = ''StcClient'', args = [JStr (ascii ''https://b'')]\<rparr>]\<rparr>"

definition clientA :: client where
  "clientA = \<lparr>clazz = ''StcClient'', ctor_args = [JStr (ascii ''https://a'')],
              chainInfo = Some stc_chain\<rparr>"

definition clientB :: client where
  "clientB = \<lparr>clazz = ''StcClient'', ctor_args = [JStr (ascii ''https://b'')],
              chainInfo = Some stc_chain\<rparr>"

text \<open>
  Two environments. In the first, \<open>A\<close> answers after 120 ms that it is not ready and
  \<open>B\<close> after 250 ms that it is; in the second, every client answers after 120 ms that
  it is not ready.
\<close>

definition one_ready :: env where
  "one_ready =
     \<lparr>chainSelector = (\<lambda>chainCode. stc_chain),
      exports = (\<lambda>i n. n = ''StcClient''),
      getInfo = (\<lambda>c t. if c = clientB
                         then Some (250, Fulfilled \<lparr>bestBlockNumber = 100, isReady = True\<rparr>)
                         else Some (120, Fulfilled \<lparr>bestBlockNumber = 0, isReady = False\<rparr>))\<rparr>"

definition none_ready :: env where
  "none_ready =
     \<lparr>chainSelector = (\<lambda>chainCode. stc_chain),
      exports = (\<lambda>i n. n = ''StcClient''),
      getInfo = (\<lambda>c t. Some (120, Fulfilled \<lparr>bestBlockNumber = 0, isReady = False\<rparr>))\<rparr>"

text \<open>
  A controller that has resolved nothing yet, at time 1000; and one whose pool is built
  and whose entry for the chain, \<open>B\<close> until time 301000, is unexpired at time 1000.
\<close>

definition fresh :: state where
  "fresh = \<lparr>clientsCache = Map.empty, lastClientCache = Map.empty, now = 1000, getInfoCalls = []\<rparr>"

definition resolved :: state where
  "resolved =
     \<lparr>clientsCache = [''stc'' \<mapsto> [clientA, clientB]],
      lastClientCache = [''stc'' \<mapsto> (clientB, 301000)],
      now = 1000, getInfoCalls = []\<rparr>"

text \<open>
  Handlers for the fan-out adapter. A token table that fulfils at once with the decimals
  of a token it knows and with \<open>undefined\<close> for any other; a lookup that first
  validates its argument and throws on everything but \<open>usdt\<close>; and one whose promise
  for \<open>dai\<close> never settles.
\<close>

definition token_table :: "string \<Rightarrow> nat option invocation" where
  "token_table token = Returns (Some (0, Fulfilled (map_of [(''usdt'', 6)] token)))"

definition strict_table :: "string \<Rightarrow> nat option invocation" where
  "strict_table token =
     (if token = ''usdt'' then Returns (Some (0, Fulfilled (Some 6)))
      else Throws (CheckFailed ''unknown token''))"

definition stalling_table :: "string \<Rightarrow> nat option invocation" where
  "stalling_table token =
     (if token = ''dai'' then Returns None else Returns (Some (0, Fulfilled (Some 6))))"

text \<open>
  Three \<open>getUTXO\<close> implementations. A node that answers every address after 40 ms with
  one UTXO (numbered 7), except for \<open>addr2\<close>, for which it rejects; one that throws on
  every address before returning a promise; and one that never answers.
\<close>

definition utxo_node :: "string \<Rightarrow> nat list invocation" where
  "utxo_node address =
     (if address = ''addr2'' then Returns (Some (40, Rejected NotImplementedError))
      else Returns (Some (40, Fulfilled [7])))"

definition strict_node :: "string \<Rightarrow> nat list invocation" where
  "strict_node address = Throws (CheckFailed ''invalid address'')"

definition silent_node :: "string \<Rightarrow> nat list invocation" where
  "silent_node address = Returns None"

section \<open>Properties of the JSON-RPC engine\<close>

lemma member_envelope:
  "member (envelope i m p) ''id'' = Some (JNum (int i))"
  "member (envelope i m p) ''method'' = Some (JStr (ascii m))"
  "member (envelope i m p) ''params'' = Some p"
  "member (envelope i m p) ''jsonrpc'' = Some (JStr (ascii ''2.0''))"
  by (simp_all add: envelope_def)

lemma parse_all_positions:
  "parse_all rs = Inr vs \<Longrightarrow>
   length vs = length rs \<and> (\<forall>i<length rs. parseRPCResponse (rs ! i) = Inr (vs ! i))"
proof (induction rs arbitrary: vs)
  case Nil
  then show ?case by simp
next
  case (Cons r rs)
  from Cons.prems obtain v vs' where v: "parseRPCResponse r = Inr v"
    and vs': "parse_all rs = Inr vs'" and eq: "vs = v # vs'"
    by (auto split: sum.splits)
  from Cons.IH [OF vs'] show ?case
    by (auto simp: eq v nth_Cons split: nat.splits)
qed

text \<open>
  C4. In a batch call of \<open>N\<close> calls, a parsed response that is not a JSON array is
  rejected with the protocol error "response should be an array"; an array whose length
  differs from \<open>N\<close> is rejected with the protocol error that cites both counts; and
  when the batch succeeds, the \<open>i\<close>-th result is the one extracted from the \<open>i\<close>-th
  element of the response, whatever id that element echoes.
\<close>

theorem batchCall_response_shape:
  assumes "post (batch_body calls) = Inr response"
  shows "((\<forall>rs. response \<noteq> JArr rs) \<longrightarrow>
            batchCall post calls = Inl (ProtocolError ResponseNotArray))
       \<and> (\<forall>rs. response = JArr rs \<and> length rs \<noteq> length calls \<longrightarrow>
            batchCall post calls =
              Inl (ProtocolError (BatchLengthMismatch (length calls) (length rs))))
       \<and> (\<forall>vs. batchCall post calls = Inr vs \<longrightarrow>
            (\<exists>rs. response = JArr rs \<and> length rs = length calls \<and> length vs = length calls
               \<and> (\<forall>i<length calls. parseRPCResponse (rs ! i) = Inr (vs ! i))))"
proof (intro conjI allI impI)
  assume "\<forall>rs. response \<noteq> JArr rs"
  then show "batchCall post calls = Inl (ProtocolError ResponseNotArray)"
    using assms by (cases response) (simp_all add: batchCall_def)
next
  fix rs assume "response = JArr rs \<and> length rs \<noteq> length calls"
  then show "batchCall post calls =
      Inl (ProtocolError (BatchLengthMismatch (length calls) (length rs)))"
    using assms by (auto simp: batchCall_def)
next
  fix vs assume ok: "batchCall post calls = Inr vs"
  then obtain rs where rs: "response = JArr rs"
    using assms by (cases response) (simp_all add: batchCall_def)
  with ok assms have len: "length rs = length calls" and pa: "parse_all rs = Inr vs"
    by (auto simp: batchCall_def split: if_splits)
  from parse_all_positions [OF pa] len rs
  show "\<exists>rs. response = JArr rs \<and> length rs = length calls \<and> length vs = length calls
               \<and> (\<forall>i<length calls. parseRPCResponse (rs ! i) = Inr (vs ! i))"
    by simp
qed

theorem batchCall_response_shape_witness:
  "batchCall (\<lambda>body. Inr (JObj [(''jsonrpc'', JStr (ascii ''2.0'')), (''result'', JBool True)])) two_pings
     = Inl (ProtocolError ResponseNotArray)
   \<and> batchCall (\<lambda>body. Inr (JArr [JObj [(''jsonrpc'', JStr (ascii ''2.0'')), (''result'', JBool True)]])) two_pings
     = Inl (ProtocolError (BatchLengthMismatch 2 1))
   \<and> error_message (ProtocolError (BatchLengthMismatch 2 1))
     = ''Invalid JSON Batch RPC response, batch with 2 calls, but got 1 responses''
   \<and> batchCall (\<lambda>body. Inr (JArr [JObj [(''result'', JBool True)], JObj [(''result'', JNull)]])) two_pings
     = Inr [JBool True, JNull]"
proof -
  let ?r1 = "JObj [(''jsonrpc'', JStr (ascii ''2.0'')), (''result'', JBool True)]"
  let ?r2 = "JArr [JObj [(''jsonrpc'', JStr (ascii ''2.0'')), (''result'', JBool True)]]"
  let ?r3 = "JArr [JObj [(''result'', JBool True)], JObj [(''result'', JNull)]]"
  have a: "batchCall (\<lambda>body. Inr ?r1) two_pings = Inl (ProtocolError ResponseNotArray)"
    using batchCall_response_shape [of "\<lambda>body. Inr ?r1" two_pings ?r1] by simp
  have b: "batchCall (\<lambda>body. Inr ?r2) two_pings = Inl (ProtocolError (BatchLengthMismatch 2 1))"
    using batchCall_response_shape [of "\<lambda>body. Inr ?r2" two_pings ?r2]
    by (simp add: two_pings_def)
  have c: "error_message (ProtocolError (BatchLengthMismatch 2 1))
     = ''Invalid JSON Batch RPC response, batch with 2 calls, but got 1 responses''"
    by (simp add: show_nat.simps digit_char_def)
  have d: "batchCall (\<lambda>body. Inr ?r3) two_pings = Inr [JBool True, JNull]"
    by (simp add: batchCall_def two_pings_def parseRPCResponse_def)
  show ?thesis using a b c d by simp
qed

text \<open>
  C5. A response object in which \<open>error\<close> is present makes the call reject with the
  JSON-RPC protocol error that carries the remote error object (code and message),
  whether or not \<open>result\<close> is present as well: nothing is assumed about \<open>result\<close>.
\<close>

theorem call_error_takes_priority:
  "post (call_body m p) = Inr response \<Longrightarrow> member response ''error'' = Some e \<Longrightarrow>
   call post m p = Inl (ProtocolError (JsonRpcError e))"
  by (simp add: call_def parseRPCResponse_def)

theorem call_error_takes_priority_witness:
  "call (\<lambda>body. Inr (JObj [(''jsonrpc'', JStr (ascii ''2.0'')), (''result'', JNum 7),
            (''error'', JObj [(''errorCode'', JNum 10001),
                              (''errorMessage'', JStr (ascii ''Internal Error''))])]))
        ''ping'' (JArr [])
   = Inl (ProtocolError (JsonRpcError (JObj [(''errorCode'', JNum 10001),
                                             (''errorMessage'', JStr (ascii ''Internal Error''))])))"
  using call_error_takes_priority
    [of "(\<lambda>body. Inr (JObj [(''jsonrpc'', JStr (ascii ''2.0'')), (''result'', JNum 7),
            (''error'', JObj [(''errorCode'', JNum 10001),
                              (''errorMessage'', JStr (ascii ''Internal Error''))])]))"
        "''ping''" "JArr []" _
        "JObj [(''errorCode'', JNum 10001), (''errorMessage'', JStr (ascii ''Internal Error''))]"]
  by simp

text \<open>
  C6. For a response object without \<open>error\<close>: when the \<open>result\<close> key is absent the
  call rejects with the protocol error "result not found"; when it is present the call
  resolves to its value, so that an explicit \<open>null\<close> resolves to \<open>null\<close> and is told
  apart from the absent key.
\<close>

theorem call_result_absent_or_null:
  "post (call_body m p) = Inr response \<Longrightarrow> member response ''error'' = None \<Longrightarrow>
   call post m p =
     (case member response ''result'' of
        None \<Rightarrow> Inl (ProtocolError ResultNotFound)
      | Some r \<Rightarrow> Inr r)"
  by (simp add: call_def parseRPCResponse_def)

theorem call_result_absent_or_null_witness:
  "call (\<lambda>body. Inr (JObj [(''jsonrpc'', JStr (ascii ''2.0''))])) ''ping'' (JArr [])
     = Inl (ProtocolError ResultNotFound)
   \<and> call (\<lambda>body. Inr (JObj [(''jsonrpc'', JStr (ascii ''2.0'')), (''result'', JNull)]))
        ''ping'' (JArr [])
     = Inr JNull"
  using call_result_absent_or_null
      [of "\<lambda>body. Inr (JObj [(''jsonrpc'', JStr (ascii ''2.0''))])" "''ping''" "JArr []"]
    call_result_absent_or_null
      [of "\<lambda>body. Inr (JObj [(''jsonrpc'', JStr (ascii ''2.0'')), (''result'', JNull)])"
          "''ping''" "JArr []"]
  by simp

text \<open>
  C7. The envelope of a single call carries id 0, and the envelopes of a batch of \<open>N\<close>
  calls carry the ids \<open>0, \<dots>, N - 1\<close> in request order, each with the method and the
  parameters of the call at that position. The ids are a function of the position within
  the one call alone: the engine keeps no counter.
\<close>

theorem request_ids_by_position:
  "member (call_body m p) ''id'' = Some (JNum 0) \<and>
   (\<exists>es. batch_body calls = JArr es \<and>
      map (\<lambda>e. member e ''id'') es = map (\<lambda>i. Some (JNum (int i))) [0..<length calls] \<and>
      map (\<lambda>e. member e ''method'') es = map (\<lambda>c. Some (JStr (ascii (fst c)))) calls \<and>
      map (\<lambda>e. member e ''params'') es = map (\<lambda>c. Some (snd c)) calls)"
proof -
  have 1: "member (call_body m p) ''id'' = Some (JNum 0)"
    by (simp add: call_body_def member_envelope)
  let ?es = "map (\<lambda>(i, (m, p)). envelope i m p) (zip [0..<length calls] calls)"
  have 2: "map (\<lambda>e. member e ''id'') ?es = map (\<lambda>i. Some (JNum (int i))) [0..<length calls]"
    by (rule nth_equalityI) (simp_all add: member_envelope split: prod.splits)
  have 3: "map (\<lambda>e. member e ''method'') ?es = map (\<lambda>c. Some (JStr (ascii (fst c)))) calls"
    by (rule nth_equalityI) (simp_all add: member_envelope split: prod.splits)
  have 4: "map (\<lambda>e. member e ''params'') ?es = map (\<lambda>c. Some (snd c)) calls"
    by (rule nth_equalityI) (simp_all add: member_envelope split: prod.splits)
  show ?thesis using 1 2 3 4 by (simp add: batch_body_def)
qed

theorem request_ids_by_position_witness:
  "\<exists>es. batch_body two_pings = JArr es \<and>
     map (\<lambda>e. member e ''id'') es = [Some (JNum 0), Some (JNum 1)]"
  using request_ids_by_position [of "''ping''" "JArr []" two_pings]
  by (auto simp: two_pings_def upt_rec)

section \<open>Properties of the Starcoin client\<close>

text \<open>
  C9. Whatever value the underlying RPC call resolves with, \<open>broadcastTransaction\<close>
  resolves, and it resolves to true exactly when that value is a string of exactly 66
  code units: to false for every non-string and for a string of any other length.
\<close>

theorem broadcastTransaction_string66:
  "rpc_call ''txpool.submit_hex_transaction'' (JArr [JStr rawTx]) = Inr txid \<Longrightarrow>
   broadcastTransaction rpc_call rawTx = Inr (\<exists>s. txid = JStr s \<and> length s = 66)"
  by (cases txid) (simp_all add: broadcastTransaction_def typeof_string_def js_length_def)

theorem broadcastTransaction_string66_witness:
  "broadcastTransaction (\<lambda>m p. Inr (JStr (replicate 66 48))) (ascii ''0x01'') = Inr True
   \<and> broadcastTransaction (\<lambda>m p. Inr (JStr (replicate 64 48))) (ascii ''0x01'') = Inr False
   \<and> broadcastTransaction (\<lambda>m p. Inr JNull) (ascii ''0x01'') = Inr False"
  using broadcastTransaction_string66
      [of "\<lambda>m p. Inr (JStr (replicate 66 48))" "ascii ''0x01''" "JStr (replicate 66 48)"]
    broadcastTransaction_string66
      [of "\<lambda>m p. Inr (JStr (replicate 64 48))" "ascii ''0x01''" "JStr (replicate 64 48)"]
    broadcastTransaction_string66 [of "\<lambda>m p. Inr JNull" "ascii ''0x01''" JNull]
  by simp

section \<open>Properties of the fan-out adapter\<close>

text \<open>
  Three runs of the adapter. When every call of the handler returns a promise that
  settles, the handler has been called on every item and the adapter fulfils. When a call
  throws, the adapter rejects with that exception and the handler has not been called on
  the items after it. When every call returns a promise and one of the promises never
  settles, the adapter never settles.
\<close>

lemma map_handler_returns:
  "(\<forall>x\<in>set xs. handler x = Returns (Some (g x))) \<Longrightarrow>
   map_handler handler xs = (xs, Inr (map (\<lambda>x. Some (g x)) xs))"
  by (induction xs) simp_all

lemma settle_all_map: "settle_all (map (\<lambda>x. Some (g x)) xs) = Some (map g xs)"
  by (induction xs) simp_all

lemma collect_same_length:
  "length outputs = length inputs \<Longrightarrow>
   collect inputs outputs =
     Inr (map (\<lambda>result. case result of Fulfilled v \<Rightarrow> v | Rejected reason \<Rightarrow> None) outputs)"
  by (simp add: collect_def check_def)

lemma collect_mismatch:
  "length inputs \<noteq> length outputs \<Longrightarrow> \<exists>msg. collect inputs outputs = Inl (CheckFailed msg)"
  by (simp add: collect_def check_def)

lemma batchCall2SingleCall_settled:
  assumes "\<forall>x\<in>set inputs. handler x = Returns (Some (g x))"
  shows "batchCall2SingleCall inputs handler =
     (inputs,
      Some (fold max (map (\<lambda>x. fst (g x)) inputs) 0,
            Fulfilled (map (\<lambda>x. case snd (g x) of Fulfilled v \<Rightarrow> v | Rejected reason \<Rightarrow> None)
                         inputs)))"
  by (simp add: batchCall2SingleCall_def map_handler_returns [OF assms] allSettled_def
      settle_all_map collect_same_length comp_def)

lemma map_handler_throws:
  "\<forall>y\<in>set pre. \<exists>p. handler y = Returns p \<Longrightarrow> handler x = Throws e \<Longrightarrow>
   map_handler handler (pre @ x # suf) = (pre @ [x], Inl e)"
  by (induction pre) auto

lemma batchCall2SingleCall_throws:
  "\<forall>y\<in>set pre. \<exists>p. handler y = Returns p \<Longrightarrow> handler x = Throws e \<Longrightarrow>
   batchCall2SingleCall (pre @ x # suf) handler = (pre @ [x], Some (0, Rejected e))"
  by (simp add: batchCall2SingleCall_def map_handler_throws)

lemma map_handler_pending:
  "\<forall>x\<in>set xs. \<exists>p. handler x = Returns p \<Longrightarrow> \<exists>x\<in>set xs. handler x = Returns None \<Longrightarrow>
   \<exists>ps. map_handler handler xs = (xs, Inr ps) \<and> settle_all ps = None"
proof (induction xs)
  case Nil
  then show ?case by simp
next
  case (Cons x xs)
  then obtain p where p: "handler x = Returns p" by auto
  show ?case
  proof (cases "\<exists>y\<in>set xs. handler y = Returns None")
    case True
    with Cons obtain ps where "map_handler handler xs = (xs, Inr ps)" "settle_all ps = None"
      by auto
    with p show ?thesis by (cases p) simp_all
  next
    case False
    with Cons.prems(2) have none: "handler x = Returns None" by auto
    from Cons.prems(1) have "\<forall>y\<in>set xs. \<exists>q. handler y = Returns q" by simp
    then have "\<exists>ps. map_handler handler xs = (xs, Inr ps)"
      by (induction xs) auto
    with none show ?thesis by auto
  qed
qed

lemma batchCall2SingleCall_pending:
  "\<forall>x\<in>set inputs. \<exists>p. handler x = Returns p \<Longrightarrow> \<exists>x\<in>set inputs. handler x = Returns None \<Longrightarrow>
   batchCall2SingleCall inputs handler = (inputs, None)"
  using map_handler_pending [of inputs handler]
  by (auto simp: batchCall2SingleCall_def allSettled_def)

lemma settled_choice:
  assumes "\<forall>x\<in>set inputs. \<exists>d r. handler x = Returns (Some (d, r))"
  obtains g where "\<forall>x\<in>set inputs. handler x = Returns (Some (g x))"
proof -
  from assms have "\<forall>x\<in>set inputs. \<exists>p. handler x = Returns (Some p)"
    by auto
  then have "\<exists>g. \<forall>x\<in>set inputs. handler x = Returns (Some (g x))"
    by (rule bchoice)
  then obtain g where "\<forall>x\<in>set inputs. handler x = Returns (Some (g x))" ..
  then show ?thesis by (rule that)
qed

text \<open>
  C3, as the code has it. For every input list and every handler whose calls all return
  a promise that settles, the adapter calls the handler on every item and fulfils with an
  output list of the same length; the output at an index is \<open>undefined\<close> when the
  promise of that item rejected and is otherwise exactly the value it fulfilled with,
  which the handler's type \<open>Promise<R | undefined>\<close> allows to be \<open>undefined\<close>
  too. So an item whose promise rejects aborts none of its siblings. An output count that
  disagrees with the input count fails the check.
\<close>

theorem batchCall2SingleCall_outputs:
  assumes "\<forall>x\<in>set inputs. \<exists>d r. handler x = Returns (Some (d, r))"
  shows "(\<exists>d outs. batchCall2SingleCall inputs handler = (inputs, Some (d, Fulfilled outs))
            \<and> length outs = length inputs
            \<and> (\<forall>i<length inputs. \<exists>t r. handler (inputs ! i) = Returns (Some (t, r))
                  \<and> outs ! i = (case r of Fulfilled v \<Rightarrow> v | Rejected reason \<Rightarrow> None)))
       \<and> (length inputs \<noteq> length outputs \<longrightarrow>
            (\<exists>msg. collect inputs outputs = Inl (CheckFailed msg)))"
proof -
  obtain g where g: "\<forall>x\<in>set inputs. handler x = Returns (Some (g x))"
    using assms by (rule settled_choice)
  let ?outs = "map (\<lambda>x. case snd (g x) of Fulfilled v \<Rightarrow> v | Rejected reason \<Rightarrow> None) inputs"
  have run: "batchCall2SingleCall inputs handler =
      (inputs, Some (fold max (map (\<lambda>x. fst (g x)) inputs) 0, Fulfilled ?outs))"
    using g by (rule batchCall2SingleCall_settled)
  have at: "\<exists>t r. handler (inputs ! i) = Returns (Some (t, r))
      \<and> ?outs ! i = (case r of Fulfilled v \<Rightarrow> v | Rejected reason \<Rightarrow> None)"
    if "i < length inputs" for i
  proof -
    from that g have "handler (inputs ! i) = Returns (Some (g (inputs ! i)))"
      by simp
    with that show ?thesis by (cases "g (inputs ! i)") simp
  qed
  from run at collect_mismatch [of inputs outputs] show ?thesis
    by auto
qed

theorem batchCall2SingleCall_outputs_witness:
  "batchCall2SingleCall [''addr1'', ''addr2'', ''addr3'']
       (\<lambda>i. case utxo_node i of Throws e \<Rightarrow> Throws e | Returns p \<Rightarrow> Returns (widen p))
     = ([''addr1'', ''addr2'', ''addr3''], Some (40, Fulfilled [Some [7], None, Some [7]]))
   \<and> (\<exists>msg. collect [''addr1'', ''addr2'', ''addr3''] [Fulfilled (Some [7::nat])] = Inl (CheckFailed msg))"
proof -
  let ?h = "\<lambda>i. case utxo_node i of Throws e \<Rightarrow> Throws e | Returns p \<Rightarrow> Returns (widen p)"
  let ?in = "[''addr1'', ''addr2'', ''addr3'']"
  have settles: "\<forall>x\<in>set ?in. \<exists>d r. ?h x = Returns (Some (d, r))"
    by (simp add: utxo_node_def widen_def)
  from batchCall2SingleCall_outputs [OF settles, of "[Fulfilled (Some [7::nat])]"]
  obtain d outs where run: "batchCall2SingleCall ?in ?h = (?in, Some (d, Fulfilled outs))"
    and len: "length outs = 3"
    and at: "\<forall>i<3. \<exists>t r. ?h (?in ! i) = Returns (Some (t, r))
                  \<and> outs ! i = (case r of Fulfilled v \<Rightarrow> v | Rejected reason \<Rightarrow> None)"
    and bad: "\<exists>msg. collect ?in [Fulfilled (Some [7::nat])] = Inl (CheckFailed msg)"
    by auto
  have "outs ! 0 = Some [7]"
    using at [rule_format, of 0] by (auto simp: utxo_node_def widen_def)
  moreover have "outs ! 1 = None"
    using at [rule_format, of 1] by (auto simp: utxo_node_def widen_def)
  moreover have "outs ! 2 = Some [7]"
    using at [rule_format, of 2] by (auto simp: utxo_node_def widen_def)
  ultimately have outs: "outs = [Some [7], None, Some [7]]"
    using len by (auto simp: list_eq_iff_nth_eq less_Suc_eq numeral_3_eq_3 numeral_2_eq_2)
  have "d = 40"
    using run by (simp add: batchCall2SingleCall_def allSettled_def utxo_node_def widen_def
        collect_def check_def)
  with run outs bad show ?thesis by simp
qed

text \<open>
  C3, as the spec states it, fails. A token-table handler fulfils with \<open>undefined\<close>
  for an unknown token, so the output is \<open>undefined\<close> at index 1 although the call for
  that item did not fail. A handler that throws on \<open>dai\<close> before returning a promise
  rejects the whole adapter, and \<open>usdt\<close>, after it, is never looked up. A handler
  whose promise for \<open>dai\<close> never settles leaves the adapter without any output list.
\<close>

theorem fanout_counterexample:
  "batchCall2SingleCall [''usdt'', ''dai''] token_table
     = ([''usdt'', ''dai''], Some (0, Fulfilled [Some 6, None]))
   \<and> token_table ''dai'' = Returns (Some (0, Fulfilled None))
   \<and> batchCall2SingleCall [''dai'', ''usdt''] strict_table
     = ([''dai''], Some (0, Rejected (CheckFailed ''unknown token'')))
   \<and> batchCall2SingleCall [''usdt'', ''dai''] stalling_table = ([''usdt'', ''dai''], None)"
  by (simp add: batchCall2SingleCall_def allSettled_def collect_def check_def
      token_table_def strict_table_def stalling_table_def)

lemma reduce_from_assign:
  "''__proto__'' \<notin> set suf \<Longrightarrow>
   reduce_from (\<lambda>acc utxos index. assign acc (key_at (pre @ suf) index) (h utxos))
      acc (length pre) (map g suf)
     = acc\<lparr>own := (\<lambda>a. if a \<in> set suf then Some (h (g a)) else own acc a)\<rparr>"
proof (induction suf arbitrary: pre acc)
  case Nil
  then show ?case by simp
next
  case (Cons x suf)
  let ?F = "\<lambda>acc utxos index. assign acc (key_at (pre @ x # suf) index) (h utxos)"
  let ?acc = "acc\<lparr>own := (own acc)(x \<mapsto> h (g x))\<rparr>"
  from Cons.prems have x: "x \<noteq> ''__proto__''" and suf: "''__proto__'' \<notin> set suf"
    by auto
  have k: "key_at (pre @ x # suf) (length pre) = x"
    by (simp add: key_at_def)
  have "reduce_from ?F acc (length pre) (map g (x # suf))
        = reduce_from ?F ?acc (length (pre @ [x])) (map g suf)"
    using x by (simp add: k assign_def)
  also have "\<dots> = ?acc\<lparr>own := (\<lambda>a. if a \<in> set suf then Some (h (g a)) else own ?acc a)\<rparr>"
    using Cons.IH [OF suf, of "pre @ [x]" ?acc]
    by (simp only: append_assoc append_Cons append_Nil)
  also have "\<dots> = acc\<lparr>own := (\<lambda>a. if a \<in> set (x # suf) then Some (h (g a)) else own acc a)\<rparr>"
    by (simp add: fun_eq_iff)
  finally show ?case .
qed

text \<open>
  C10, as the code has it. For every input address list without the key \<open>__proto__\<close>
  and every \<open>getUTXO\<close> whose calls all return a promise that settles, \<open>getUTXOs\<close>
  fulfils with an object whose own properties are exactly the input addresses; an
  address whose \<open>getUTXO\<close> promise rejected is mapped to the empty list, as is an
  address whose promise fulfilled with no UTXOs, and any other address to the list its
  promise fulfilled with.
\<close>

theorem getUTXOs_entry_per_address:
  assumes settles: "\<forall>a\<in>set addresses. \<exists>d r. getUTXO a = Returns (Some (d, r))"
    and plain: "''__proto__'' \<notin> set addresses"
  shows "\<exists>d obj. getUTXOs getUTXO addresses = (addresses, Some (d, Fulfilled obj))
           \<and> dom (own obj) = set addresses
           \<and> (\<forall>a\<in>set addresses. \<exists>t r. getUTXO a = Returns (Some (t, r))
                 \<and> own obj a = Some (case r of Fulfilled us \<Rightarrow> us | Rejected e \<Rightarrow> []))"
proof -
  obtain g where g: "\<forall>a\<in>set addresses. getUTXO a = Returns (Some (g a))"
    using settles by (rule settled_choice)
  let ?handler = "\<lambda>i. case getUTXO i of Throws e \<Rightarrow> Throws e | Returns p \<Rightarrow> Returns (widen p)"
  let ?g' = "\<lambda>a. (fst (g a), case snd (g a) of Fulfilled us \<Rightarrow> Fulfilled (Some us)
                                              | Rejected e \<Rightarrow> Rejected e)"
  let ?G = "\<lambda>a. case snd (?g' a) of Fulfilled v \<Rightarrow> v | Rejected reason \<Rightarrow> None"
  let ?h = "\<lambda>utxos. case utxos of Some us \<Rightarrow> us | None \<Rightarrow> []"
  have "?handler a = Returns (Some (?g' a))" if "a \<in> set addresses" for a
  proof -
    from that g have "getUTXO a = Returns (Some (g a))" by simp
    then show ?thesis
      by (cases "g a"; cases "snd (g a)") (simp_all add: widen_def)
  qed
  then have "\<forall>a\<in>set addresses. ?handler a = Returns (Some (?g' a))"
    by blast
  then have fan: "batchCall2SingleCall addresses ?handler =
      (addresses, Some (fold max (map (\<lambda>a. fst (?g' a)) addresses) 0, Fulfilled (map ?G addresses)))"
    by (rule batchCall2SingleCall_settled)
  let ?obj = "reduce_from (\<lambda>acc utxos index. assign acc (key_at ([] @ addresses) index) (?h utxos))
                 empty_object (length ([] :: string list)) (map ?G addresses)"
  have run: "getUTXOs getUTXO addresses =
      (addresses, Some (fold max (map (\<lambda>a. fst (?g' a)) addresses) 0, Fulfilled ?obj))"
    unfolding getUTXOs_def fan by simp
  have obj: "?obj = empty_object\<lparr>own := (\<lambda>a. if a \<in> set addresses then Some (?h (?G a))
                                              else own empty_object a)\<rparr>"
    using plain by (rule reduce_from_assign)
  have hG: "\<exists>t r. getUTXO a = Returns (Some (t, r))
      \<and> Some (?h (?G a)) = Some (case r of Fulfilled us \<Rightarrow> us | Rejected e \<Rightarrow> [])"
    if "a \<in> set addresses" for a
  proof -
    from that g have "getUTXO a = Returns (Some (g a))" by simp
    then show ?thesis
      by (cases "g a"; cases "snd (g a)") simp_all
  qed
  have dom: "dom (own ?obj) = set addresses"
    unfolding obj by (auto simp: empty_object_def dom_def)
  have ent: "\<forall>a\<in>set addresses. \<exists>t r. getUTXO a = Returns (Some (t, r))
      \<and> own ?obj a = Some (case r of Fulfilled us \<Rightarrow> us | Rejected e \<Rightarrow> [])"
    unfolding obj using hG by simp
  from run dom ent show ?thesis by blast
qed

theorem getUTXOs_entry_per_address_witness:
  "\<exists>d obj. getUTXOs utxo_node [''addr1'', ''addr2''] = ([''addr1'', ''addr2''], Some (d, Fulfilled obj))
     \<and> dom (own obj) = {''addr1'', ''addr2''}
     \<and> own obj ''addr1'' = Some [7] \<and> own obj ''addr2'' = Some []"
proof -
  have settles: "\<forall>a\<in>set [''addr1'', ''addr2'']. \<exists>d r. utxo_node a = Returns (Some (d, r))"
    by (simp add: utxo_node_def)
  have plain: "''__proto__'' \<notin> set [''addr1'', ''addr2'']"
    by simp
  from getUTXOs_entry_per_address [OF settles plain]
  obtain d obj where run: "getUTXOs utxo_node [''addr1'', ''addr2'']
        = ([''addr1'', ''addr2''], Some (d, Fulfilled obj))"
    and dom: "dom (own obj) = set [''addr1'', ''addr2'']"
    and ent: "\<forall>a\<in>set [''addr1'', ''addr2'']. \<exists>t r. utxo_node a = Returns (Some (t, r))
                 \<and> own obj a = Some (case r of Fulfilled us \<Rightarrow> us | Rejected e \<Rightarrow> [])"
    by blast
  have "own obj ''addr1'' = Some [7]"
    using ent [rule_format, of "''addr1''"] by (auto simp: utxo_node_def)
  moreover have "own obj ''addr2'' = Some []"
    using ent [rule_format, of "''addr2''"] by (auto simp: utxo_node_def)
  ultimately show ?thesis using run dom by auto
qed

text \<open>
  C10, as stated for every address list, fails. For the addresses \<open>__proto__\<close> and
  \<open>addr1\<close>, both answered with one UTXO, the object returned has the single own
  property \<open>addr1\<close>: the assignment to \<open>__proto__\<close> replaced the prototype. A
  \<open>getUTXO\<close> that throws before returning a promise rejects \<open>getUTXOs\<close>, and one
  whose promise never settles leaves it without a result.
\<close>

theorem getUTXOs_counterexample:
  "getUTXOs utxo_node [''__proto__'', ''addr1'']
     = ([''__proto__'', ''addr1''],
        Some (40, Fulfilled (assign (assign empty_object ''__proto__'' [7]) ''addr1'' [7])))
   \<and> own (assign (assign empty_object ''__proto__'' [7::nat]) ''addr1'' [7]) ''__proto__'' = None
   \<and> getUTXOs strict_node [''addr1'', ''addr2'']
     = ([''addr1''], Some (0, Rejected (CheckFailed ''invalid address'')))
   \<and> getUTXOs silent_node [''addr1''] = ([''addr1''], None)"
  by (simp add: getUTXOs_def batchCall2SingleCall_def allSettled_def collect_def check_def
      widen_def key_at_def utxo_node_def strict_node_def silent_node_def)
    (simp add: assign_def empty_object_def)

section \<open>Properties of the provider controller\<close>

lemma earliest_mem: "earliest x xs \<in> set (x # xs)"
  by (induction xs arbitrary: x) (auto split: if_splits)

lemma fulfilments_mem:
  "(d, v) \<in> set (fulfilments ps) \<longleftrightarrow> Some (d, Fulfilled v) \<in> set ps"
  by (induction ps rule: fulfilments.induct) auto

lemma createAnyPromise_Fulfilled:
  assumes "createAnyPromise ps = Some (d, Fulfilled v)"
  shows "Some (d, Fulfilled v) \<in> set ps"
proof (cases "fulfilments ps")
  case Nil
  with assms show ?thesis
    by (simp add: createAnyPromise_def split: if_splits)
next
  case (Cons x xs)
  with assms have "earliest x xs = (d, v)"
    by (simp add: createAnyPromise_def split: prod.splits)
  with earliest_mem [of x xs] Cons have "(d, v) \<in> set (fulfilments ps)"
    by simp
  then show ?thesis by (simp add: fulfilments_mem)
qed

lemma candidate_task_Fulfilled:
  "candidate_task e t c = Some (d, Fulfilled v) \<Longrightarrow>
   v = c \<and> (\<exists>info. getInfo e c t = Some (d, Fulfilled info) \<and> isReady info)"
  by (auto simp: candidate_task_def split: option.splits outcome.splits if_splits)

lemma readiness_race_settles:
  "\<exists>d settled. readiness_race e t cs = Some (d, settled) \<and> d \<le> 10000 \<and>
     (\<forall>c. settled = Fulfilled (Some c) \<longrightarrow>
        c \<in> set cs \<and> (\<exists>info. getInfo e c t = Some (d, Fulfilled info) \<and> isReady info))"
proof (cases "createAnyPromise (map (candidate_task e t) cs)")
  case None
  then show ?thesis
    by (simp add: readiness_race_def promise_race_def createDelayPromise_def widen_def
        List.map_filter_simps)
next
  case (Some p)
  obtain d r where p: "p = (d, r)" by (cases p)
  show ?thesis
  proof (cases r)
    case (Rejected err)
    with Some p show ?thesis
      by (simp add: readiness_race_def promise_race_def createDelayPromise_def widen_def
          List.map_filter_simps)
  next
    case (Fulfilled v)
    with Some p have "createAnyPromise (map (candidate_task e t) cs) = Some (d, Fulfilled v)"
      by simp
    then have "Some (d, Fulfilled v) \<in> set (map (candidate_task e t) cs)"
      by (rule createAnyPromise_Fulfilled)
    then obtain c where "c \<in> set cs" "candidate_task e t c = Some (d, Fulfilled v)"
      by auto
    with candidate_task_Fulfilled [of e t c d v]
    have "v \<in> set cs" "\<exists>info. getInfo e v t = Some (d, Fulfilled info) \<and> isReady info"
      by auto
    with Some p Fulfilled show ?thesis
      by (simp add: readiness_race_def promise_race_def createDelayPromise_def widen_def
          List.map_filter_simps)
  qed
qed

lemma pool_keeps:
  "pool e s chainCode = Inr (cs, s1) \<Longrightarrow>
   lastClientCache s1 = lastClientCache s \<and> now s1 = now s \<and> getInfoCalls s1 = getInfoCalls s"
  by (auto simp: pool_def buildClients_def Let_def split: option.splits sum.splits if_splits)

lemma unexpired_not_cached:
  "lastClientCache s chainCode = Some (c, expiredAt) \<Longrightarrow> now s < expiredAt \<Longrightarrow>
   cached s chainCode flt = None"
  by (simp add: cached_def)

lemma getClient_after_race:
  assumes "cached s chainCode (default_filter fa) = None"
    and "pool e s chainCode = Inr (cs, s1)"
    and "readiness_race e (now s) (filter (default_filter fa) cs) = Some (d, settled)"
  shows "getClient e s chainCode fa =
     Some (case (case settled of Fulfilled c \<Rightarrow> c | Rejected err \<Rightarrow> None) of
             None \<Rightarrow> (Inl (Error ''No available client''),
                       s1\<lparr>getInfoCalls := getInfoCalls s @ filter (default_filter fa) cs,
                          now := now s + int d\<rparr>)
           | Some c \<Rightarrow> (Inr c,
                       s1\<lparr>getInfoCalls := getInfoCalls s @ filter (default_filter fa) cs,
                          now := now s + int d,
                          lastClientCache := (lastClientCache s)(chainCode \<mapsto> (c, now s + int d + 300000))\<rparr>))"
  using assms pool_keeps [OF assms(2)]
  by (simp add: getClient_def Let_def split: option.splits)

lemma clientA_neq_clientB: "clientA \<noteq> clientB"
  by (simp add: clientA_def clientB_def ascii_def)

lemma pool_fresh:
  "exports e ''stc'' = (\<lambda>n. n = ''StcClient'') \<Longrightarrow> chainSelector e ''stc'' = stc_chain \<Longrightarrow>
   pool e fresh ''stc'' =
     Inr ([clientA, clientB], fresh\<lparr>clientsCache := [''stc'' \<mapsto> [clientA, clientB]]\<rparr>)"
  by (simp add: pool_def buildClients_def requireChainImpl_def IMPLS_def Let_def
      fresh_def stc_chain_def clientA_def clientB_def)

lemma pool_resolved:
  "pool e resolved ''stc'' = Inr ([clientA, clientB], resolved)"
  by (simp add: pool_def resolved_def)

lemma race_one_ready:
  "readiness_race one_ready t [clientA, clientB] = Some (250, Fulfilled (Some clientB))"
  using clientA_neq_clientB
  by (simp add: readiness_race_def promise_race_def createAnyPromise_def
      createDelayPromise_def candidate_task_def widen_def List.map_filter_simps one_ready_def)

lemma expired_entry_returned:
  "lastClientCache s chainCode = Some (c, expiredAt) \<Longrightarrow> expiredAt \<le> now s \<Longrightarrow>
   default_filter fa c \<Longrightarrow> getClient e s chainCode fa = Some (Inr c, s)"
  by (simp add: getClient_def cached_def)

text \<open>
  C1 does not hold of the code. The controller below holds an entry for the chain that
  is unexpired at the time of the call (1000 < 301000) and no filter is given, so every
  client is accepted; \<open>getClient\<close> nevertheless runs the readiness race, invoking
  \<open>getInfo\<close> on both candidates, and stores a new entry 250 ms later.
\<close>

theorem getClient_unexpired_entry_probes_again:
  "getClient one_ready resolved ''stc'' None =
     Some (Inr clientB,
           resolved\<lparr>lastClientCache := [''stc'' \<mapsto> (clientB, 301250)],
                    now := 1250, getInfoCalls := [clientA, clientB]\<rparr>)"
proof -
  have 1: "cached resolved ''stc'' (default_filter None) = None"
    by (rule unexpired_not_cached [of _ _ clientB 301000]) (simp_all add: resolved_def)
  have 3: "readiness_race one_ready (now resolved) (filter (default_filter None) [clientA, clientB])
      = Some (250, Fulfilled (Some clientB))"
    by (simp add: default_filter_def race_one_ready)
  show ?thesis
    using getClient_after_race [OF 1 pool_resolved 3]
    by (simp add: resolved_def default_filter_def)
qed

text \<open>
  C2. When \<open>getClient\<close> reaches the readiness race and the race produces no winner,
  because every candidate reports that it is not ready, or every candidate's
  \<open>getInfo\<close> rejects, or the delay of 10 seconds settles before any candidate that would
  report ready, then \<open>getClient\<close> rejects with "No available client", within 10
  seconds, having invoked \<open>getInfo\<close> once on each candidate and no more (no retry),
  and leaving the cached entries as they were.
\<close>

theorem getClient_no_winner:
  assumes nohit: "cached s chainCode (default_filter fa) = None"
    and pl: "pool e s chainCode = Inr (cs, s1)"
    and none: "(\<forall>c\<in>set (filter (default_filter fa) cs).
                  \<exists>d info. getInfo e c (now s) = Some (d, Fulfilled info) \<and> \<not> isReady info)
             \<or> (\<forall>c\<in>set (filter (default_filter fa) cs).
                  \<exists>d err. getInfo e c (now s) = Some (d, Rejected err))
             \<or> (\<forall>c\<in>set (filter (default_filter fa) cs).
                  \<forall>d info. getInfo e c (now s) = Some (d, Fulfilled info) \<and> isReady info
                    \<longrightarrow> 10000 < d)"
  shows "\<exists>s'. getClient e s chainCode fa = Some (Inl (Error ''No available client''), s')
           \<and> getInfoCalls s' = getInfoCalls s @ filter (default_filter fa) cs
           \<and> lastClientCache s' = lastClientCache s
           \<and> now s' \<le> now s + 10000"
proof -
  let ?cands = "filter (default_filter fa) cs"
  from none have late: "\<forall>c\<in>set ?cands. \<forall>d info.
      getInfo e c (now s) = Some (d, Fulfilled info) \<and> isReady info \<longrightarrow> 10000 < d"
    by fastforce
  obtain d settled where race: "readiness_race e (now s) ?cands = Some (d, settled)"
    and d: "d \<le> 10000"
    and win: "\<forall>c. settled = Fulfilled (Some c) \<longrightarrow>
        c \<in> set ?cands \<and> (\<exists>info. getInfo e c (now s) = Some (d, Fulfilled info) \<and> isReady info)"
    using readiness_race_settles [of e "now s" ?cands] by blast
  have undefined: "(case settled of Fulfilled c \<Rightarrow> c | Rejected err \<Rightarrow> None) = None"
  proof (cases settled)
    case (Fulfilled v)
    show ?thesis
    proof (cases v)
      case None
      with Fulfilled show ?thesis by simp
    next
      case (Some c)
      with Fulfilled win late d show ?thesis by fastforce
    qed
  next
    case (Rejected err)
    then show ?thesis by simp
  qed
  from getClient_after_race [OF nohit pl race] undefined pool_keeps [OF pl] d
  show ?thesis by simp
qed

theorem getClient_no_winner_witness:
  "\<exists>s'. getClient none_ready fresh ''stc'' None = Some (Inl (Error ''No available client''), s')
      \<and> getInfoCalls s' = [clientA, clientB]
      \<and> lastClientCache s' = Map.empty
      \<and> now s' \<le> 11000"
proof -
  have 1: "cached fresh ''stc'' (default_filter None) = None"
    by (simp add: cached_def fresh_def)
  have 2: "pool none_ready fresh ''stc'' =
      Inr ([clientA, clientB], fresh\<lparr>clientsCache := [''stc'' \<mapsto> [clientA, clientB]]\<rparr>)"
    by (rule pool_fresh) (simp_all add: none_ready_def)
  have 3: "\<forall>c\<in>set (filter (default_filter None) [clientA, clientB]).
      \<exists>d info. getInfo none_ready c (now fresh) = Some (d, Fulfilled info) \<and> \<not> isReady info"
    by (simp add: none_ready_def)
  from getClient_no_winner [OF 1 2 disjI1, OF 3]
  show ?thesis by (simp add: default_filter_def fresh_def)
qed

text \<open>
  C8. Whenever \<open>getClient\<close> resolves a client through the readiness race, the cached
  entries afterwards are those before with the entry of this chain code replaced, as a
  whole, by the pair of the returned client and the time of storing plus 300000 ms
  (5 minutes); the entries of all other chain codes are untouched.
\<close>

theorem getClient_stores_winner:
  assumes nohit: "cached s chainCode (default_filter fa) = None"
    and ok: "getClient e s chainCode fa = Some (Inr c, s')"
  shows "lastClientCache s' = (lastClientCache s)(chainCode \<mapsto> (c, now s' + 300000))"
proof (cases "pool e s chainCode")
  case (Inl err)
  with nohit ok show ?thesis by (simp add: getClient_def)
next
  case (Inr p)
  obtain cs s1 where p: "p = (cs, s1)" by (cases p)
  obtain d settled where
    race: "readiness_race e (now s) (filter (default_filter fa) cs) = Some (d, settled)"
    using readiness_race_settles [of e "now s" "filter (default_filter fa) cs"] by blast
  from getClient_after_race [OF nohit Inr [unfolded p] race] ok
  show ?thesis by (auto split: option.splits)
qed

theorem getClient_stores_winner_witness:
  "getClient one_ready fresh ''stc'' None =
     Some (Inr clientB,
           \<lparr>clientsCache = [''stc'' \<mapsto> [clientA, clientB]],
            lastClientCache = [''stc'' \<mapsto> (clientB, 301250)],
            now = 1250, getInfoCalls = [clientA, clientB]\<rparr>)
   \<and> [''stc'' \<mapsto> (clientB, 301250)] = (lastClientCache fresh)(''stc'' \<mapsto> (clientB, 1250 + 300000))
   \<and> getClient one_ready resolved ''stc'' None =
     Some (Inr clientB,
           resolved\<lparr>lastClientCache := [''stc'' \<mapsto> (clientB, 301250)],
                    now := 1250, getInfoCalls := [clientA, clientB]\<rparr>)
   \<and> lastClientCache resolved ''stc'' = Some (clientB, 301000)
   \<and> [''stc'' \<mapsto> (clientB, 301250)] = (lastClientCache resolved)(''stc'' \<mapsto> (clientB, 1250 + 300000))"
proof -
  have 1: "cached fresh ''stc'' (default_filter None) = None"
    by (simp add: cached_def fresh_def)
  have 2: "pool one_ready fresh ''stc'' =
      Inr ([clientA, clientB], fresh\<lparr>clientsCache := [''stc'' \<mapsto> [clientA, clientB]]\<rparr>)"
    by (rule pool_fresh) (simp_all add: one_ready_def)
  have 3: "readiness_race one_ready (now fresh) (filter (default_filter None) [clientA, clientB])
      = Some (250, Fulfilled (Some clientB))"
    by (simp add: default_filter_def race_one_ready)
  have 4: "getClient one_ready fresh ''stc'' None =
     Some (Inr clientB,
           \<lparr>clientsCache = [''stc'' \<mapsto> [clientA, clientB]],
            lastClientCache = [''stc'' \<mapsto> (clientB, 301250)],
            now = 1250, getInfoCalls = [clientA, clientB]\<rparr>)"
    using getClient_after_race [OF 1 2 3] by (simp add: fresh_def default_filter_def)
  have 5: "cached resolved ''stc'' (default_filter None) = None"
    by (rule unexpired_not_cached [of _ _ clientB 301000]) (simp_all add: resolved_def)
  have 6: "readiness_race one_ready (now resolved) (filter (default_filter None) [clientA, clientB])
      = Some (250, Fulfilled (Some clientB))"
    by (simp add: default_filter_def race_one_ready)
  have 7: "getClient one_ready resolved ''stc'' None =
     Some (Inr clientB,
           resolved\<lparr>lastClientCache := [''stc'' \<mapsto> (clientB, 301250)],
                    now := 1250, getInfoCalls := [clientA, clientB]\<rparr>)"
    using getClient_after_race [OF 5 pool_resolved 6]
    by (simp add: resolved_def default_filter_def)
  have 8: "lastClientCache resolved ''stc'' = Some (clientB, 301000)"
    by (simp add: resolved_def)
  from getClient_stores_winner [OF 1 4] getClient_stores_winner [OF 5 7] 4 7 8
  show ?thesis by simp
qed

end
